theory Spec2Isabelle
  imports Complex_Main "HOL-Library.Word"
begin

unbundle bit_operations_syntax

section \<open>Machine types and outcomes\<close>

text \<open>
  The wrappers of \<^verbatim>\<open>webgl/transcoder/basis_wrappers.cpp\<close> compute with
  \<^verbatim>\<open>uint32_t\<close> (wrap-around arithmetic) over byte vectors.
\<close>

type_synonym u8 = "8 word"
type_synonym u32 = "32 word"
type_synonym bytes = "u8 list"

text \<open>
  A call of a wrapper either returns, or stops: at a failed \<^verbatim>\<open>assert\<close> (only
  when the build does not define \<^verbatim>\<open>NDEBUG\<close>), at an integer division by zero,
  or with the \<^verbatim>\<open>RangeError\<close> that the typed array's \<^verbatim>\<open>set\<close> throws.
  A call that stops has written nothing to a JavaScript buffer: every wrapper
  writes to its destination in its last step only.
\<close>

datatype 'a outcome = Returned 'a | AssertFailed | DivideByZero | RangeError

section \<open>The external transcoder interface\<close>

text \<open>
  The structures of \<^verbatim>\<open>basisu_transcoder.h\<close> that the wrappers read, with the
  fields they read.
\<close>

record basisu_file_info =
  m_version :: u32
  m_us_per_frame :: u32
  m_total_images :: u32
  m_userdata0 :: u32
  m_userdata1 :: u32
  m_tex_format :: u32
  m_y_flipped :: bool
  m_has_alpha_slices :: bool
  m_total_endpoints :: u32
  m_endpoint_codebook_ofs :: u32
  m_endpoint_codebook_size :: u32
  m_total_selectors :: u32
  m_selector_codebook_ofs :: u32
  m_selector_codebook_size :: u32
  m_tables_ofs :: u32
  m_tables_size :: u32

record basisu_image_info =
  m_orig_width :: u32
  m_orig_height :: u32
  m_num_blocks_x :: u32
  m_num_blocks_y :: u32
  m_total_levels :: u32
  m_alpha_flag :: bool
  m_iframe_flag :: bool

record basisu_image_level_info =
  m_alpha_flag :: bool
  m_rgb_file_ofs :: u32
  m_rgb_file_len :: u32
  m_alpha_file_ofs :: u32
  m_alpha_file_len :: u32

text \<open>
  The scalar arguments of the two low-level entry points; the wrappers forward
  them to the transcoder unchanged (each field carries the parameter's name).
\<close>

record etc1s_args =
  etc1s_target_format :: u32
  etc1s_output_blocks_buf_size_in_blocks_or_pixels :: u32
  etc1s_num_blocks_x :: u32
  etc1s_num_blocks_y :: u32
  etc1s_orig_width :: u32
  etc1s_orig_height :: u32
  etc1s_level_index :: u32
  etc1s_rgb_offset :: u32
  etc1s_rgb_length :: u32
  etc1s_alpha_offset :: u32
  etc1s_alpha_length :: u32
  etc1s_decode_flags :: u32
  etc1s_basis_file_has_alpha_slices :: bool
  etc1s_is_video :: bool
  etc1s_output_row_pitch_in_blocks_or_pixels :: u32
  etc1s_output_rows_in_pixels :: u32

record uastc_args =
  uastc_target_format_int :: u32
  uastc_output_blocks_buf_size_in_blocks_or_pixels :: u32
  uastc_num_blocks_x :: u32
  uastc_num_blocks_y :: u32
  uastc_orig_width :: u32
  uastc_orig_height :: u32
  uastc_level_index :: u32
  uastc_slice_offset :: u32
  uastc_slice_length :: u32
  uastc_decode_flags :: u32
  uastc_has_alpha :: bool
  uastc_is_video :: bool
  uastc_output_row_pitch_in_blocks_or_pixels :: u32
  uastc_output_rows_in_pixels :: u32
  uastc_channel0 :: int
  uastc_channel1 :: int

text \<open>
  Everything the wrappers use and do not define: the build's \<^verbatim>\<open>NDEBUG\<close>
  setting, the enumerants of \<^verbatim>\<open>transcoder_texture_format\<close> and of
  \<^verbatim>\<open>basisu_decode_flags\<close> that the wrappers name, the format tables, the
  container queries of \<^verbatim>\<open>basisu_transcoder\<close> (a failing query is
  \<open>None\<close>), and the decoders. A query receives the \<^verbatim>\<open>size\<close> bytes at
  \<^verbatim>\<open>data\<close> as a list. A decoder that writes into a buffer receives the
  buffer's contents and returns the new ones; \<open>'p\<close> is the state of the
  \<^verbatim>\<open>basisu_lowlevel_etc1s_transcoder\<close> base object (palettes and tables),
  \<open>'v\<close> is \<^verbatim>\<open>basisu_transcoder_state\<close>.
\<close>

record ('p, 'v) basisu =
  NDEBUG :: bool
  cTFPVRTC1_4_RGB :: u32
  cTFPVRTC1_4_RGBA :: u32
  cTFTotalTextureFormats :: u32
  cDecodeFlagsTranscodeAlphaDataToOpaqueFormats :: u32
  basis_transcoder_format_is_uncompressed :: "u32 \<Rightarrow> bool"
  basis_get_uncompressed_bytes_per_pixel :: "u32 \<Rightarrow> u32"
  basis_get_bytes_per_block_or_pixel :: "u32 \<Rightarrow> u32"
  validate_header :: "bytes \<Rightarrow> bool"
  get_total_images :: "bytes \<Rightarrow> u32"
  get_image_info :: "bytes \<Rightarrow> u32 \<Rightarrow> basisu_image_info option"
  get_image_level_info :: "bytes \<Rightarrow> u32 \<Rightarrow> u32 \<Rightarrow> basisu_image_level_info option"
  get_image_level_desc :: "bytes \<Rightarrow> u32 \<Rightarrow> u32 \<Rightarrow> (u32 \<times> u32 \<times> u32) option"
  get_file_info :: "bytes \<Rightarrow> basisu_file_info option"
  transcode_image_level ::
    "bytes \<Rightarrow> u32 \<Rightarrow> u32 \<Rightarrow> bytes \<Rightarrow> u32 \<Rightarrow> u32 \<Rightarrow> u32 \<Rightarrow> u32 \<Rightarrow> u32 \<Rightarrow> bool \<times> bytes"
  lowlevel_decode_palettes :: "'p \<Rightarrow> u32 \<Rightarrow> bytes \<Rightarrow> u32 \<Rightarrow> bytes \<Rightarrow> bool \<times> 'p"
  lowlevel_decode_tables :: "'p \<Rightarrow> bytes \<Rightarrow> bool \<times> 'p"
  lowlevel_etc1s_transcode_image ::
    "'p \<Rightarrow> 'v \<Rightarrow> etc1s_args \<Rightarrow> bytes \<Rightarrow> bytes \<Rightarrow> bool \<times> bytes \<times> 'p \<times> 'v"
  lowlevel_uastc_transcode_image :: "uastc_args \<Rightarrow> bytes \<Rightarrow> bytes \<Rightarrow> bool \<times> bytes"

text \<open>\<^verbatim>\<open>assert(c)\<close>, followed by the rest of the function.\<close>

definition c_assert :: "('p, 'v) basisu \<Rightarrow> bool \<Rightarrow> 'a outcome \<Rightarrow> 'a outcome" where
  "c_assert T c k = (if NDEBUG T \<or> c then k else AssertFailed)"

section \<open>Global initialisation\<close>

text \<open>
  \<^verbatim>\<open>g_pGlobal_codebook\<close> is null (\<open>None\<close>) until \<^verbatim>\<open>basis_init\<close> allocates the
  codebook; \<open>transcoder_globals\<close> is whatever \<^verbatim>\<open>basisu_transcoder_init\<close>
  maintains. \<^verbatim>\<open>BASISU_SUPPORT_ENCODING\<close> is 0, the file's default.
\<close>

record ('t, 'c) globals =
  g_pGlobal_codebook :: "'c option"
  transcoder_globals :: 't

definition basis_init :: "('t \<Rightarrow> 't) \<Rightarrow> 'c \<Rightarrow> ('t, 'c) globals \<Rightarrow> ('t, 'c) globals" where
  "basis_init basisu_transcoder_init new_codebook g =
     (if g_pGlobal_codebook g \<noteq> None then g
      else g\<lparr>transcoder_globals := basisu_transcoder_init (transcoder_globals g),
             g_pGlobal_codebook := Some new_codebook\<rparr>)"

section \<open>Buffer marshalling\<close>

text \<open>
  A JavaScript \<^verbatim>\<open>Uint8Array\<close> is its list of bytes. \<^verbatim>\<open>dst.set(src)\<close> throws
  a \<^verbatim>\<open>RangeError\<close>, writing nothing, when \<open>src\<close> is longer than \<open>dst\<close>, and
  otherwise overwrites the first \<open>length src\<close> bytes.
\<close>

definition typed_array_set :: "bytes \<Rightarrow> bytes \<Rightarrow> bytes option" where
  "typed_array_set dst src =
     (if length dst < length src then None else Some (src @ drop (length src) dst))"

definition copy_from_jsbuffer :: "bytes \<Rightarrow> bytes" where
  "copy_from_jsbuffer srcBuffer = srcBuffer"


text \<open>A vector of \<open>n\<close> bytes after a decoder wrote \<open>out\<close> into it: its size stays \<open>n\<close>.\<close>

definition written :: "nat \<Rightarrow> bytes \<Rightarrow> bytes" where
  "written n out = take n (out @ replicate n 0)"

section \<open>The container object\<close>

definition MAGIC :: u32 where
  "MAGIC = 0xDEADBEE1"

record basis_file_desc =
  m_version :: u32
  m_us_per_frame :: u32
  m_total_images :: u32
  m_userdata0 :: u32
  m_userdata1 :: u32
  m_tex_format :: u32
  m_y_flipped :: bool
  m_has_alpha_slices :: bool
  m_num_endpoints :: u32
  m_endpoint_palette_ofs :: u32
  m_endpoint_palette_len :: u32
  m_num_selectors :: u32
  m_selector_palette_ofs :: u32
  m_selector_palette_len :: u32
  m_tables_ofs :: u32
  m_tables_len :: u32

record basis_image_desc =
  m_orig_width :: u32
  m_orig_height :: u32
  m_num_blocks_x :: u32
  m_num_blocks_y :: u32
  m_num_levels :: u32
  m_alpha_flag :: bool
  m_iframe_flag :: bool

record basis_image_level_desc =
  m_rgb_file_ofs :: u32
  m_rgb_file_len :: u32
  m_alpha_file_ofs :: u32
  m_alpha_file_len :: u32

record basis_file =
  m_magic :: u32
  m_file :: bytes

text \<open>The constructor: the buffer is copied, validated, and cleared when invalid.\<close>

definition basis_file_new :: "('p, 'v) basisu \<Rightarrow> ('t, 'c) globals \<Rightarrow> bytes \<Rightarrow> basis_file outcome" where
  "basis_file_new T g jsBuffer =
     (if g_pGlobal_codebook g = None
      then c_assert T False (Returned \<lparr>m_magic = 0, m_file = replicate (length jsBuffer) 0\<rparr>)
      else let file = jsBuffer;
               file' = (if \<not> validate_header T file then [] else file)
           in Returned \<lparr>m_magic = MAGIC, m_file = file'\<rparr>)"

definition close :: "('p, 'v) basisu \<Rightarrow> basis_file \<Rightarrow> basis_file outcome" where
  "close T f = c_assert T (m_magic f = MAGIC) (Returned (f\<lparr>m_file := []\<rparr>))"

definition getHasAlpha :: "('p, 'v) basisu \<Rightarrow> basis_file \<Rightarrow> u32 outcome" where
  "getHasAlpha T f =
     c_assert T (m_magic f = MAGIC)
       (if m_magic f \<noteq> MAGIC then Returned 0
        else case get_image_level_info T (m_file f) 0 0 of
               None \<Rightarrow> Returned 0
             | Some li \<Rightarrow> Returned (of_bool (basisu_image_level_info.m_alpha_flag li)))"

definition getNumImages :: "('p, 'v) basisu \<Rightarrow> basis_file \<Rightarrow> u32 outcome" where
  "getNumImages T f =
     c_assert T (m_magic f = MAGIC)
       (if m_magic f \<noteq> MAGIC then Returned 0
        else Returned (get_total_images T (m_file f)))"

definition getNumLevels :: "('p, 'v) basisu \<Rightarrow> basis_file \<Rightarrow> u32 \<Rightarrow> u32 outcome" where
  "getNumLevels T f image_index =
     c_assert T (m_magic f = MAGIC)
       (if m_magic f \<noteq> MAGIC then Returned 0
        else case get_image_info T (m_file f) image_index of
               None \<Rightarrow> Returned 0
             | Some ii \<Rightarrow> Returned (m_total_levels ii))"

definition getImageWidth :: "('p, 'v) basisu \<Rightarrow> basis_file \<Rightarrow> u32 \<Rightarrow> u32 \<Rightarrow> u32 outcome" where
  "getImageWidth T f image_index level_index =
     c_assert T (m_magic f = MAGIC)
       (if m_magic f \<noteq> MAGIC then Returned 0
        else case get_image_level_desc T (m_file f) image_index level_index of
               None \<Rightarrow> Returned 0
             | Some (orig_width, orig_height, total_blocks) \<Rightarrow> Returned orig_width)"

definition getImageHeight :: "('p, 'v) basisu \<Rightarrow> basis_file \<Rightarrow> u32 \<Rightarrow> u32 \<Rightarrow> u32 outcome" where
  "getImageHeight T f image_index level_index =
     c_assert T (m_magic f = MAGIC)
       (if m_magic f \<noteq> MAGIC then Returned 0
        else case get_image_level_desc T (m_file f) image_index level_index of
               None \<Rightarrow> Returned 0
             | Some (orig_width, orig_height, total_blocks) \<Rightarrow> Returned orig_height)"

text \<open>The three descriptors after \<^verbatim>\<open>memset(&result, 0, sizeof(result))\<close>.\<close>

definition zero_file_desc :: basis_file_desc where
  "zero_file_desc =
     \<lparr>m_version = 0, m_us_per_frame = 0, m_total_images = 0, m_userdata0 = 0,
      m_userdata1 = 0, m_tex_format = 0, m_y_flipped = False,
      m_has_alpha_slices = False, m_num_endpoints = 0,
      m_endpoint_palette_ofs = 0, m_endpoint_palette_len = 0,
      m_num_selectors = 0, m_selector_palette_ofs = 0,
      m_selector_palette_len = 0, m_tables_ofs = 0, m_tables_len = 0\<rparr>"

definition zero_image_desc :: basis_image_desc where
  "zero_image_desc =
     \<lparr>m_orig_width = 0, m_orig_height = 0, m_num_blocks_x = 0, m_num_blocks_y = 0,
      m_num_levels = 0, m_alpha_flag = False, m_iframe_flag = False\<rparr>"

definition zero_image_level_desc :: basis_image_level_desc where
  "zero_image_level_desc =
     \<lparr>m_rgb_file_ofs = 0, m_rgb_file_len = 0, m_alpha_file_ofs = 0, m_alpha_file_len = 0\<rparr>"

definition getFileDesc :: "('p, 'v) basisu \<Rightarrow> basis_file \<Rightarrow> basis_file_desc outcome" where
  "getFileDesc T f =
     (let result = zero_file_desc
      in c_assert T (m_magic f = MAGIC)
        (if m_magic f \<noteq> MAGIC then Returned result
         else case get_file_info T (m_file f) of
                None \<Rightarrow> c_assert T False (Returned result)
              | Some file_info \<Rightarrow> Returned
                  \<lparr>m_version = basisu_file_info.m_version file_info,
                   m_us_per_frame = basisu_file_info.m_us_per_frame file_info,
                   m_total_images = basisu_file_info.m_total_images file_info,
                   m_userdata0 = basisu_file_info.m_userdata0 file_info,
                   m_userdata1 = basisu_file_info.m_userdata1 file_info,
                   m_tex_format = basisu_file_info.m_tex_format file_info,
                   m_y_flipped = basisu_file_info.m_y_flipped file_info,
                   m_has_alpha_slices = basisu_file_info.m_has_alpha_slices file_info,
                   m_num_endpoints = m_total_endpoints file_info,
                   m_endpoint_palette_ofs = m_endpoint_codebook_ofs file_info,
                   m_endpoint_palette_len = m_endpoint_codebook_size file_info,
                   m_num_selectors = m_total_selectors file_info,
                   m_selector_palette_ofs = m_selector_codebook_ofs file_info,
                   m_selector_palette_len = m_selector_codebook_size file_info,
                   m_tables_ofs = basisu_file_info.m_tables_ofs file_info,
                   m_tables_len = m_tables_size file_info\<rparr>))"

definition getImageDesc :: "('p, 'v) basisu \<Rightarrow> basis_file \<Rightarrow> u32 \<Rightarrow> basis_image_desc outcome" where
  "getImageDesc T f image_index =
     (let result = zero_image_desc
      in c_assert T (m_magic f = MAGIC)
        (if m_magic f \<noteq> MAGIC then Returned result
         else case get_image_info T (m_file f) image_index of
                None \<Rightarrow> c_assert T False (Returned result)
              | Some image_info \<Rightarrow> Returned
                  \<lparr>m_orig_width = basisu_image_info.m_orig_width image_info,
                   m_orig_height = basisu_image_info.m_orig_height image_info,
                   m_num_blocks_x = basisu_image_info.m_num_blocks_x image_info,
                   m_num_blocks_y = basisu_image_info.m_num_blocks_y image_info,
                   m_num_levels = m_total_levels image_info,
                   m_alpha_flag = basisu_image_info.m_alpha_flag image_info,
                   m_iframe_flag = basisu_image_info.m_iframe_flag image_info\<rparr>))"

definition getImageLevelDesc ::
  "('p, 'v) basisu \<Rightarrow> basis_file \<Rightarrow> u32 \<Rightarrow> u32 \<Rightarrow> basis_image_level_desc outcome" where
  "getImageLevelDesc T f image_index level_index =
     (let result = zero_image_level_desc
      in c_assert T (m_magic f = MAGIC)
        (if m_magic f \<noteq> MAGIC then Returned result
         else case get_image_level_info T (m_file f) image_index level_index of
                None \<Rightarrow> c_assert T False (Returned result)
              | Some image_info \<Rightarrow> Returned
                  \<lparr>m_rgb_file_ofs = basisu_image_level_info.m_rgb_file_ofs image_info,
                   m_rgb_file_len = basisu_image_level_info.m_rgb_file_len image_info,
                   m_alpha_file_ofs = basisu_image_level_info.m_alpha_file_ofs image_info,
                   m_alpha_file_len = basisu_image_level_info.m_alpha_file_len image_info\<rparr>))"

definition getImageTranscodedSizeInBytes ::
  "('p, 'v) basisu \<Rightarrow> basis_file \<Rightarrow> u32 \<Rightarrow> u32 \<Rightarrow> u32 \<Rightarrow> u32 outcome" where
  "getImageTranscodedSizeInBytes T f image_index level_index format =
     c_assert T (m_magic f = MAGIC)
       (if m_magic f \<noteq> MAGIC then Returned 0
        else if format \<ge> cTFTotalTextureFormats T then Returned 0
        else case get_image_level_desc T (m_file f) image_index level_index of
               None \<Rightarrow> Returned 0
             | Some (orig_width, orig_height, total_blocks) \<Rightarrow>
                 if basis_transcoder_format_is_uncompressed T format then
                   let bytes_per_pixel = basis_get_uncompressed_bytes_per_pixel T format;
                       bytes_per_line = orig_width * bytes_per_pixel;
                       bytes_per_slice = bytes_per_line * orig_height
                   in Returned bytes_per_slice
                 else
                   let bytes_per_block = basis_get_bytes_per_block_or_pixel T format
                   in if format = cTFPVRTC1_4_RGB T \<or> format = cTFPVRTC1_4_RGBA T then
                        let width = (orig_width + 3) AND NOT 3;
                            height = (orig_height + 3) AND NOT 3;
                            size_in_bytes = (max 8 width * max 8 height * 4 + 7) div 8
                        in Returned size_in_bytes
                      else Returned (total_blocks * bytes_per_block))"

text \<open>
  \<^verbatim>\<open>transcodeImage\<close> returns the status and leaves the destination array in a
  new state; the third component is the size of \<^verbatim>\<open>dst_data\<close> once it has
  been resized, \<open>None\<close> when the call returned before. \<open>dst_set\<close> is the final
  \<^verbatim>\<open>dst.call<void>("set", memoryView)\<close> and the return; \<open>transcode\<close> in the
  block-format branch is the code from \<^verbatim>\<open>dst_data.resize(required_size)\<close> on, run
  with the value \<^verbatim>\<open>required_size\<close> has there.
\<close>

definition dst_set :: "bytes \<Rightarrow> bytes \<Rightarrow> u32 \<Rightarrow> (u32 \<times> bytes \<times> nat option) outcome" where
  "dst_set dst dst_data status =
     (case typed_array_set dst dst_data of
        None \<Rightarrow> RangeError
      | Some d \<Rightarrow> Returned (status, d, Some (length dst_data)))"

definition transcodeImage ::
  "('p, 'v) basisu \<Rightarrow> basis_file \<Rightarrow> bytes \<Rightarrow> u32 \<Rightarrow> u32 \<Rightarrow> u32 \<Rightarrow> u32 \<Rightarrow> u32
     \<Rightarrow> (u32 \<times> bytes \<times> nat option) outcome" where
  "transcodeImage T f dst image_index level_index format unused get_alpha_for_opaque_formats =
     c_assert T (m_magic f = MAGIC)
       (if m_magic f \<noteq> MAGIC then Returned (0, dst, None)
        else if format \<ge> cTFTotalTextureFormats T then Returned (0, dst, None)
        else case get_image_level_desc T (m_file f) image_index level_index of
               None \<Rightarrow> Returned (0, dst, None)
             | Some (orig_width, orig_height, total_blocks) \<Rightarrow>
                 let flags = (if get_alpha_for_opaque_formats \<noteq> 0
                              then cDecodeFlagsTranscodeAlphaDataToOpaqueFormats T else 0)
                 in if basis_transcoder_format_is_uncompressed T format then
                   let bytes_per_pixel = basis_get_uncompressed_bytes_per_pixel T format;
                       bytes_per_line = orig_width * bytes_per_pixel;
                       bytes_per_slice = bytes_per_line * orig_height;
                       dst_data = replicate (unat bytes_per_slice) 0;
                       (status, out) = transcode_image_level T (m_file f) image_index level_index
                          dst_data (orig_width * orig_height) format flags orig_width orig_height
                   in dst_set dst (written (length dst_data) out) (of_bool status)
                 else
                   let bytes_per_block = basis_get_bytes_per_block_or_pixel T format;
                       required_size = total_blocks * bytes_per_block;
                       transcode = (\<lambda>required_size.
                         let dst_data = replicate (unat required_size) 0
                         in if bytes_per_block = 0 then DivideByZero
                            else
                              let (status, out) = transcode_image_level T (m_file f) image_index
                                     level_index dst_data
                                     (word_of_nat (length dst_data) div bytes_per_block)
                                     format flags 0 0
                              in dst_set dst (written (length dst_data) out) (of_bool status))
                   in if format = cTFPVRTC1_4_RGB T \<or> format = cTFPVRTC1_4_RGBA T then
                        let width = (orig_width + 3) AND NOT 3;
                            height = (orig_height + 3) AND NOT 3;
                            required_size = (max 8 width * max 8 height * 4 + 7) div 8
                        in c_assert T (required_size \<ge> total_blocks * bytes_per_block)
                             (transcode required_size)
                      else transcode required_size)"

section \<open>The low-level entry points\<close>

record ('p, 'v) lowlevel_etc1s_image_transcoder =
  base :: 'p
  m_state :: 'v

definition decode_palettes ::
  "('p, 'v) basisu \<Rightarrow> ('p, 'v) lowlevel_etc1s_image_transcoder \<Rightarrow> u32 \<Rightarrow> bytes \<Rightarrow> u32 \<Rightarrow> bytes
     \<Rightarrow> (bool \<times> ('p, 'v) lowlevel_etc1s_image_transcoder) outcome" where
  "decode_palettes T s num_endpoints endpoint_data num_selectors selector_data =
     (let temp_endpoint_data = copy_from_jsbuffer endpoint_data;
          temp_selector_data = copy_from_jsbuffer selector_data
      in if length temp_endpoint_data = 0 \<or> length temp_selector_data = 0
         then c_assert T False (Returned (False, s))
         else let (ok, p) = lowlevel_decode_palettes T (base s) num_endpoints temp_endpoint_data
                              num_selectors temp_selector_data
              in Returned (ok, s\<lparr>base := p\<rparr>))"

definition decode_tables ::
  "('p, 'v) basisu \<Rightarrow> ('p, 'v) lowlevel_etc1s_image_transcoder \<Rightarrow> bytes
     \<Rightarrow> (bool \<times> ('p, 'v) lowlevel_etc1s_image_transcoder) outcome" where
  "decode_tables T s table_data =
     (let temp_table_data = copy_from_jsbuffer table_data
      in if length temp_table_data = 0
         then c_assert T False (Returned (False, s))
         else let (ok, p) = lowlevel_decode_tables T (base s) temp_table_data
              in Returned (ok, s\<lparr>base := p\<rparr>))"



section \<open>Reference quantities of the specification\<close>

text \<open>
  The sizes as the specification words them, over the natural numbers: a
  dimension rounded up to a multiple of 4, and the padded PVRTC1 size
  \<open>ceil(max(8,w') * max(8,h') * 4 / 8)\<close>.
\<close>

definition round_up4 :: "nat \<Rightarrow> nat" where
  "round_up4 n = ((n + 3) div 4) * 4"

definition pvrtc1_padded_size :: "nat \<Rightarrow> nat \<Rightarrow> nat" where
  "pvrtc1_padded_size w h =
     nat \<lceil>real (max 8 (round_up4 w) * max 8 (round_up4 h) * 4) / 8\<rceil>"

text \<open>
  What the constructor establishes and \<^verbatim>\<open>close\<close> keeps: with assertions
  enabled an object exists only with its magic set.
\<close>

definition constructed :: "('p, 'v) basisu \<Rightarrow> basis_file \<Rightarrow> bool" where
  "constructed T f = (NDEBUG T \<or> m_magic f = MAGIC)"

text \<open>
  Modelled from the spec: the container queries of \<^verbatim>\<open>basisu_transcoder\<close>
  (\<^verbatim>\<open>get_total_images\<close>, \<^verbatim>\<open>get_image_info\<close>, \<^verbatim>\<open>get_image_level_info\<close>,
  \<^verbatim>\<open>get_image_level_desc\<close>, \<^verbatim>\<open>get_file_info\<close>) are not part of the wrapper
  file. The specification has every query on a container that fails validation
  return the neutral result without reading payload bytes; an empty buffer has
  no header to validate.
\<close>

definition rejects_empty :: "('p, 'v) basisu \<Rightarrow> bool" where
  "rejects_empty T =
     (get_total_images T [] = 0 \<and> get_file_info T [] = None
      \<and> (\<forall>i. get_image_info T [] i = None)
      \<and> (\<forall>i l. get_image_level_info T [] i l = None)
      \<and> (\<forall>i l. get_image_level_desc T [] i l = None))"


section \<open>An instance of the external interface\<close>

text \<open>
  A container index with one image over any non-empty file; the image has the
  mip levels whose geometries \<open>(orig_width, orig_height, total_blocks)\<close> are
  listed, and the given alpha flag. The enumerants and format tables are as
  \<^verbatim>\<open>basisu_transcoder.h\<close> numbers them; every decoder succeeds exactly when
  the declared capacity covers the level (its pixels for an uncompressed
  format, its blocks otherwise) and fills the buffer with \<open>0xFF\<close>; the palette
  and table decoders count their calls. The wrappers are run on it at concrete
  inputs.
\<close>

definition stub_basisu :: "bool \<Rightarrow> (u32 \<times> u32 \<times> u32) list \<Rightarrow> bool \<Rightarrow> (nat, nat) basisu" where
  "stub_basisu ndebug levels alpha =
     \<lparr>NDEBUG = ndebug,
      cTFPVRTC1_4_RGB = 8,
      cTFPVRTC1_4_RGBA = 9,
      cTFTotalTextureFormats = 22,
      cDecodeFlagsTranscodeAlphaDataToOpaqueFormats = 4,
      basis_transcoder_format_is_uncompressed = (\<lambda>fmt. fmt = 13 \<or> fmt = 14 \<or> fmt = 15 \<or> fmt = 16),
      basis_get_uncompressed_bytes_per_pixel =
        (\<lambda>fmt. if fmt = 13 then 4 else if fmt = 14 \<or> fmt = 15 \<or> fmt = 16 then 2 else 0),
      basis_get_bytes_per_block_or_pixel =
        (\<lambda>fmt. if fmt = 13 then 4 else if fmt = 14 \<or> fmt = 15 \<or> fmt = 16 then 2
               else if fmt = 0 \<or> fmt = 2 \<or> fmt = 4 \<or> fmt = 8 \<or> fmt = 9 \<or> fmt = 11
                       \<or> fmt = 18 \<or> fmt = 19 \<or> fmt = 20 then 8
               else if fmt < 22 then 16 else 0),
      validate_header = (\<lambda>file. file \<noteq> []),
      get_total_images = (\<lambda>file. if file = [] then 0 else 1),
      get_image_info = (\<lambda>file i.
        if file \<noteq> [] \<and> i = 0 then
          case levels of
            [] \<Rightarrow> None
          | (w, h, tb) # rest \<Rightarrow>
            Some \<lparr>basisu_image_info.m_orig_width = w,
                  basisu_image_info.m_orig_height = h,
                  basisu_image_info.m_num_blocks_x = (w + 3) div 4,
                  basisu_image_info.m_num_blocks_y = (h + 3) div 4,
                  m_total_levels = word_of_nat (length levels),
                  basisu_image_info.m_alpha_flag = alpha,
                  basisu_image_info.m_iframe_flag = False\<rparr>
        else None),
      get_image_level_info = (\<lambda>file i l.
        if file \<noteq> [] \<and> i = 0 \<and> unat l < length levels
        then Some \<lparr>basisu_image_level_info.m_alpha_flag = alpha,
                   basisu_image_level_info.m_rgb_file_ofs = 0,
                   basisu_image_level_info.m_rgb_file_len = word_of_nat (length file),
                   basisu_image_level_info.m_alpha_file_ofs = 0,
                   basisu_image_level_info.m_alpha_file_len = 0\<rparr>
        else None),
      get_image_level_desc = (\<lambda>file i l.
        if file \<noteq> [] \<and> i = 0 \<and> unat l < length levels
        then Some (levels ! unat l) else None),
      get_file_info = (\<lambda>file.
        if file = [] then None
        else Some \<lparr>basisu_file_info.m_version = 19, basisu_file_info.m_us_per_frame = 0,
                   basisu_file_info.m_total_images = 1, basisu_file_info.m_userdata0 = 0,
                   basisu_file_info.m_userdata1 = 0, basisu_file_info.m_tex_format = 0,
                   basisu_file_info.m_y_flipped = False,
                   basisu_file_info.m_has_alpha_slices = alpha, m_total_endpoints = 1,
                   m_endpoint_codebook_ofs = 0, m_endpoint_codebook_size = 1,
                   m_total_selectors = 1, m_selector_codebook_ofs = 0,
                   m_selector_codebook_size = 1, basisu_file_info.m_tables_ofs = 0,
                   m_tables_size = 1\<rparr>),
      transcode_image_level = (\<lambda>file i l buf capacity fmt flags pitch rows.
        (file \<noteq> [] \<and> i = 0 \<and> unat l < length levels
           \<and> (case levels ! unat l of (w, h, tb) \<Rightarrow>
                 if fmt = 13 \<or> fmt = 14 \<or> fmt = 15 \<or> fmt = 16
                 then w * h \<le> capacity else tb \<le> capacity),
         map (\<lambda>b. 255) buf)),
      lowlevel_decode_palettes = (\<lambda>p num_endpoints endpoints num_selectors selectors. (True, p + 1)),
      lowlevel_decode_tables = (\<lambda>p tables. (True, p + 1)),
      lowlevel_etc1s_transcode_image = (\<lambda>p v args buf comp.
        (etc1s_num_blocks_x args * etc1s_num_blocks_y args
           \<le> etc1s_output_blocks_buf_size_in_blocks_or_pixels args,
         map (\<lambda>b. 255) buf, p, v + 1)),
      lowlevel_uastc_transcode_image = (\<lambda>args buf comp.
        (uastc_num_blocks_x args * uastc_num_blocks_y args
           \<le> uastc_output_blocks_buf_size_in_blocks_or_pixels args,
         map (\<lambda>b. 255) buf))\<rparr>"



section \<open>Word arithmetic of the size formulas\<close>

lemma and_not_3: "(x::u32) AND NOT 3 = push_bit 2 (drop_bit 2 x)"
proof -
  have m: "(3::u32) = mask 2" by (simp add: mask_eq_exp_minus_1)
  have s: "\<And>n::nat. \<not> n < 2 \<Longrightarrow> Suc (Suc (n - 2)) = n" by arith
  show ?thesis unfolding m
    by (rule bit_word_eqI) (auto simp add: bit_simps s not_less [symmetric])
qed

lemma unat_and_not_3: "unat ((x::u32) AND NOT 3) = (unat x div 4) * 4"
proof -
  have b: "unat x div 4 * 4 < 2 ^ 32"
    using unsigned_less [of x, where 'a = nat] by simp
  have d: "unat (x div 4) = unat x div 4"
    by (simp add: unat_div)
  have "unat (x div 4 * 4) = unat (x div 4) * unat (4::u32)"
    using b d by (simp add: unat_mult_lem [THEN iffD1])
  then have "unat (push_bit 2 (drop_bit 2 x)) = unat x div 4 * 4"
    using d by (simp add: push_bit_eq_mult drop_bit_eq_div)
  then show ?thesis by (simp only: and_not_3)
qed

lemma unat_round_up4: "unat (w::u32) + 3 < 2 ^ 32 \<Longrightarrow> unat ((w + 3) AND NOT 3) = round_up4 (unat w)"
proof -
  assume a: "unat w + 3 < 2 ^ 32"
  have "unat (w + 3) = unat w + 3"
    using a by (simp add: unat_add_lem [THEN iffD1])
  then show ?thesis by (simp only: unat_and_not_3 round_up4_def)
qed

lemma unat_max: "unat (max (a::u32) b) = max (unat a) (unat b)"
  by (simp add: max_def word_le_nat_alt)

lemma pvrtc1_padded_size_div: "pvrtc1_padded_size w h = (max 8 (round_up4 w) * max 8 (round_up4 h) * 4 + 7) div 8"
proof -
  define m where "m = max 8 (round_up4 w) * max 8 (round_up4 h) * 4"
  have "\<lceil>real m / 8\<rceil> = \<lceil>of_int (int m) / (of_int 8 :: real)\<rceil>" by simp
  also have "\<dots> = - (- int m div 8)" by (rule ceiling_divide_eq_div)
  also have "\<dots> = int ((m + 7) div 8)" by (simp add: zdiv_int)
  finally show ?thesis by (simp add: pvrtc1_padded_size_def m_def)
qed

lemma le_round_up4: "n \<le> round_up4 n"
  by (simp add: round_up4_def)

lemma fits_dim:
  assumes "max 8 (round_up4 a) * max 8 (round_up4 b) * 4 + 7 < (2::nat) ^ 32"
  shows "a + 3 < 2 ^ 32"
proof -
  have "a \<le> max 8 (round_up4 a)" using le_round_up4 [of a] by simp
  also have "\<dots> = max 8 (round_up4 a) * 1" by simp
  also have "\<dots> \<le> max 8 (round_up4 a) * max 8 (round_up4 b)"
    by (rule mult_le_mono2) simp
  finally show ?thesis using assms by simp
qed

lemma pvrtc1_word_size:
  fixes w h :: u32
  assumes fit: "max 8 (round_up4 (unat w)) * max 8 (round_up4 (unat h)) * 4 + 7 < 2 ^ 32"
  shows "unat ((max 8 ((w + 3) AND NOT 3) * max 8 ((h + 3) AND NOT 3) * 4 + 7) div 8)
           = pvrtc1_padded_size (unat w) (unat h)"
proof -
  define W where "W = max 8 ((w + 3) AND NOT 3)"
  define H where "H = max 8 ((h + 3) AND NOT 3)"
  define A where "A = max 8 (round_up4 (unat w))"
  define B where "B = max 8 (round_up4 (unat h))"
  have fit': "A * B * 4 + 7 < 2 ^ 32" using fit by (simp add: A_def B_def)
  have "unat w + 3 < 2 ^ 32" using fit by (rule fits_dim)
  then have uW: "unat W = A"
    by (simp only: W_def A_def unat_max unat_round_up4) simp
  have "unat h + 3 < 2 ^ 32" using fit fits_dim [of "unat h" "unat w"] by (simp add: mult.commute)
  then have uH: "unat H = B"
    by (simp only: H_def B_def unat_max unat_round_up4) simp
  have m1: "unat (W * H) = A * B"
    using fit' uW uH by (simp add: unat_mult_lem [THEN iffD1])
  have m2: "unat (W * H * 4) = A * B * 4"
    using fit' m1 by (simp add: unat_mult_lem [THEN iffD1])
  have m3: "unat (W * H * 4 + 7) = A * B * 4 + 7"
    using fit' m2 by (simp add: unat_add_lem [THEN iffD1])
  have "unat ((W * H * 4 + 7) div 8) = (A * B * 4 + 7) div 8"
    using m3 by (simp add: unat_div)
  then show ?thesis
    by (simp only: W_def H_def A_def B_def pvrtc1_padded_size_div)
qed

lemma unat_mult3: "unat ((a::u32) * b * c) = (unat a * unat b * unat c) mod 2 ^ 32"
  by (simp add: unat_word_ariths mod_mult_left_eq)

lemma unat_mult2: "unat ((a::u32) * b) = (unat a * unat b) mod 2 ^ 32"
  by (simp add: unat_word_ariths)

lemma size_value:
  assumes "m_magic f = MAGIC"
    and "format < cTFTotalTextureFormats T"
    and "get_image_level_desc T (m_file f) image_index level_index = Some (w, h, tb)"
  shows "getImageTranscodedSizeInBytes T f image_index level_index format =
      (if basis_transcoder_format_is_uncompressed T format
       then Returned (w * basis_get_uncompressed_bytes_per_pixel T format * h)
       else if format = cTFPVRTC1_4_RGB T \<or> format = cTFPVRTC1_4_RGBA T
       then Returned ((max 8 ((w + 3) AND NOT 3) * max 8 ((h + 3) AND NOT 3) * 4 + 7) div 8)
       else Returned (tb * basis_get_bytes_per_block_or_pixel T format))"
  using assms
  by (simp only: getImageTranscodedSizeInBytes_def c_assert_def Let_def)
     (simp add: not_le [symmetric])

lemma round_up4_mono: "a \<le> b \<Longrightarrow> round_up4 a \<le> round_up4 b"
  by (simp add: round_up4_def div_le_mono)

lemma padded_mono:
  assumes "a \<le> a'" and "b \<le> b'"
  shows "max 8 (round_up4 a) * max 8 (round_up4 b) * 4 + 7
       \<le> max 8 (round_up4 a') * max 8 (round_up4 b') * 4 + 7"
proof -
  have "max 8 (round_up4 a) \<le> max 8 (round_up4 a')"
    using round_up4_mono [OF assms(1)] by (simp add: max.coboundedI2)
  moreover have "max 8 (round_up4 b) \<le> max 8 (round_up4 b')"
    using round_up4_mono [OF assms(2)] by (simp add: max.coboundedI2)
  ultimately have "max 8 (round_up4 a) * max 8 (round_up4 b)
       \<le> max 8 (round_up4 a') * max 8 (round_up4 b')"
    by (rule mult_le_mono)
  then show ?thesis by simp
qed

lemma raster_mono:
  fixes w1 h1 w2 h2 p :: u32
  assumes "w1 \<le> w2" and "h1 \<le> h2" and "unat w2 * unat p * unat h2 < 2 ^ 32"
  shows "w1 * p * h1 \<le> w2 * p * h2"
proof -
  have a: "unat w1 * unat p * unat h1 \<le> unat w2 * unat p * unat h2"
    using assms(1,2) by (simp add: word_le_nat_alt mult_le_mono)
  have b: "unat (w1 * p * h1) \<le> unat w1 * unat p * unat h1"
    by (simp add: unat_mult3)
  have c: "unat (w2 * p * h2) = unat w2 * unat p * unat h2"
    using assms(3) by (simp add: unat_mult3)
  from b a have "unat (w1 * p * h1) \<le> unat w2 * unat p * unat h2" by (rule le_trans)
  then show ?thesis by (simp only: word_le_nat_alt c)
qed

lemma blocks_mono:
  fixes tb1 tb2 p :: u32
  assumes "tb1 \<le> tb2" and "unat tb2 * unat p < 2 ^ 32"
  shows "tb1 * p \<le> tb2 * p"
proof -
  have a: "unat tb1 * unat p \<le> unat tb2 * unat p"
    using assms(1) by (simp add: word_le_nat_alt mult_le_mono)
  have b: "unat (tb1 * p) \<le> unat tb1 * unat p"
    by (simp add: unat_mult2)
  have c: "unat (tb2 * p) = unat tb2 * unat p"
    using assms(2) by (simp add: unat_mult2)
  from b a have "unat (tb1 * p) \<le> unat tb2 * unat p" by (rule le_trans)
  then show ?thesis by (simp only: word_le_nat_alt c)
qed

lemma pvrtc1_mono:
  fixes w1 h1 w2 h2 :: u32
  assumes "w1 \<le> w2" and "h1 \<le> h2"
    and fit: "max 8 (round_up4 (unat w2)) * max 8 (round_up4 (unat h2)) * 4 + 7 < 2 ^ 32"
  shows "(max 8 ((w1 + 3) AND NOT 3) * max 8 ((h1 + 3) AND NOT 3) * 4 + 7) div 8
       \<le> (max 8 ((w2 + 3) AND NOT 3) * max 8 ((h2 + 3) AND NOT 3) * 4 + 7) div 8"
proof -
  have le: "max 8 (round_up4 (unat w1)) * max 8 (round_up4 (unat h1)) * 4 + 7
       \<le> max 8 (round_up4 (unat w2)) * max 8 (round_up4 (unat h2)) * 4 + 7"
    using assms(1,2) by (intro padded_mono) (simp_all add: word_le_nat_alt)
  then have fit1: "max 8 (round_up4 (unat w1)) * max 8 (round_up4 (unat h1)) * 4 + 7 < 2 ^ 32"
    using fit by (rule le_less_trans)
  have "pvrtc1_padded_size (unat w1) (unat h1) \<le> pvrtc1_padded_size (unat w2) (unat h2)"
    using le by (simp only: pvrtc1_padded_size_div div_le_mono)
  then show ?thesis
    by (simp only: word_le_nat_alt pvrtc1_word_size [OF fit] pvrtc1_word_size [OF fit1])
qed

lemma round_up4_div4: "round_up4 n = 4 * ((n + 3) div 4)"
  by (simp add: round_up4_def)

lemma pvrtc1_assertion_holds:
  fixes w h tb bpb :: u32
  assumes fit: "max 8 (round_up4 (unat w)) * max 8 (round_up4 (unat h)) * 4 + 7 < 2 ^ 32"
    and tb: "unat tb \<le> ((unat w + 3) div 4) * ((unat h + 3) div 4)"
    and bpb: "unat bpb \<le> 8"
  shows "tb * bpb \<le> (max 8 ((w + 3) AND NOT 3) * max 8 ((h + 3) AND NOT 3) * 4 + 7) div 8"
proof -
  define a where "a = (unat w + 3) div 4"
  define b where "b = (unat h + 3) div 4"
  have "unat (tb * bpb) \<le> unat tb * unat bpb" by (simp add: unat_mult2)
  also have "\<dots> \<le> (a * b) * 8"
    using tb bpb unfolding a_def b_def by (rule mult_le_mono)
  also have "\<dots> = ((4 * a) * (4 * b) * 4) div 8" by simp
  also have "\<dots> \<le> (max 8 (4 * a) * max 8 (4 * b) * 4 + 7) div 8"
  proof (rule div_le_mono)
    have "(4 * a) * (4 * b) \<le> max 8 (4 * a) * max 8 (4 * b)"
      by (rule mult_le_mono) simp_all
    then show "4 * a * (4 * b) * 4 \<le> max 8 (4 * a) * max 8 (4 * b) * 4 + 7" by simp
  qed
  also have "\<dots> = pvrtc1_padded_size (unat w) (unat h)"
    by (simp only: pvrtc1_padded_size_div round_up4_div4 a_def b_def)
  finally show ?thesis
    by (simp only: word_le_nat_alt pvrtc1_word_size [OF fit])
qed

lemma fits_16384:
  assumes "w \<le> 16384" and "h \<le> 16384"
  shows "max 8 (round_up4 w) * max 8 (round_up4 h) * 4 + 7 < (2::nat) ^ 32"
proof -
  have r: "round_up4 16384 = 16384" by (simp add: round_up4_def)
  have "max 8 (round_up4 w) \<le> 16384"
    using round_up4_mono [OF assms(1)] by (simp add: r)
  moreover have "max 8 (round_up4 h) \<le> 16384"
    using round_up4_mono [OF assms(2)] by (simp add: r)
  ultimately have "max 8 (round_up4 w) * max 8 (round_up4 h) \<le> 16384 * 16384"
    by (rule mult_le_mono)
  then show ?thesis by simp
qed

lemma pvrtc1_padded_size_small:
  assumes "w \<le> 8" and "h \<le> 8"
  shows "pvrtc1_padded_size w h = 32"
proof -
  have r: "round_up4 8 = 8" by (simp add: round_up4_def)
  have "max 8 (round_up4 w) = 8"
    using round_up4_mono [OF assms(1)] by (simp add: r)
  moreover have "max 8 (round_up4 h) = 8"
    using round_up4_mono [OF assms(2)] by (simp add: r)
  ultimately show ?thesis by (simp add: pvrtc1_padded_size_div)
qed

section \<open>Facts about the wrappers\<close>

lemma constructed_new: "basis_file_new T g jsBuffer = Returned f \<Longrightarrow> constructed T f"
  by (auto simp add: basis_file_new_def constructed_def c_assert_def Let_def split: if_splits)

lemma constructed_close: "constructed T f \<Longrightarrow> close T f = Returned (f\<lparr>m_file := []\<rparr>)
    \<and> constructed T (f\<lparr>m_file := []\<rparr>)"
  by (auto simp add: close_def constructed_def c_assert_def)













lemma rejects_empty_stub: "rejects_empty (stub_basisu nd geo a)"
  by (simp add: rejects_empty_def stub_basisu_def)

section \<open>The padded PVRTC1 size\<close>

text \<open>
  C1 (as amended). For a PVRTC1 4x4 destination format (\<^verbatim>\<open>cTFPVRTC1_4_RGB\<close> or
  \<^verbatim>\<open>cTFPVRTC1_4_RGBA\<close>) and a level of original width \<open>w\<close> and height \<open>h\<close>,
  \<^verbatim>\<open>getImageTranscodedSizeInBytes\<close> returns exactly
  \<open>ceil(max(8,w') * max(8,h') * 4 / 8)\<close>, \<open>w'\<close> and \<open>h'\<close> being the
  dimensions rounded up to multiples of 4, whenever
  \<open>max(8,w') * max(8,h') * 4 + 7\<close> is below \<open>2^32\<close>; this covers all widths and
  heights up to 16384 (\<open>fits_16384\<close>), so those in \<open>[1,7]\<close>, where the size is 32
  bytes (\<open>pvrtc1_padded_size_small\<close>), and the pairs (1,1), (4,4), (7,9).
\<close>

theorem pvrtc1_size_exact:
  assumes "m_magic f = MAGIC"
    and "format = cTFPVRTC1_4_RGB T \<or> format = cTFPVRTC1_4_RGBA T"
    and "format < cTFTotalTextureFormats T"
    and "\<not> basis_transcoder_format_is_uncompressed T format"
    and "get_image_level_desc T (m_file f) image_index level_index = Some (w, h, tb)"
    and "max 8 (round_up4 (unat w)) * max 8 (round_up4 (unat h)) * 4 + 7 < 2 ^ 32"
  shows "\<exists>r. getImageTranscodedSizeInBytes T f image_index level_index format = Returned r
            \<and> unat r = pvrtc1_padded_size (unat w) (unat h)"
proof -
  let ?r = "(max 8 ((w + 3) AND NOT 3) * max 8 ((h + 3) AND NOT 3) * 4 + 7) div 8"
  have "getImageTranscodedSizeInBytes T f image_index level_index format = Returned ?r"
    using assms(1-5)
    by (simp only: getImageTranscodedSizeInBytes_def c_assert_def Let_def) (simp add: not_le [symmetric])
  moreover have "unat ?r = pvrtc1_padded_size (unat w) (unat h)"
    using assms(6) by (rule pvrtc1_word_size)
  ultimately show ?thesis by blast
qed

text \<open>
  The theorem at the 7x9 level: 48 bytes; the reference values of the pairs
  (1,1) and (4,4) are 32 bytes each.
\<close>

theorem pvrtc1_size_exact_witness:
  "getImageTranscodedSizeInBytes (stub_basisu True [(7, 9, 6)] False)
      \<lparr>m_magic = MAGIC, m_file = [1]\<rparr> 0 0 9 = Returned 48
   \<and> pvrtc1_padded_size 7 9 = 48 \<and> pvrtc1_padded_size 1 1 = 32 \<and> pvrtc1_padded_size 4 4 = 32"
proof -
  let ?T = "stub_basisu True [(7, 9, 6)] False"
  let ?f = "\<lparr>m_magic = MAGIC, m_file = [1]\<rparr>"
  have p: "pvrtc1_padded_size 7 9 = 48" "pvrtc1_padded_size 1 1 = 32" "pvrtc1_padded_size 4 4 = 32"
    by (simp_all add: pvrtc1_padded_size_def round_up4_def)
  have "\<exists>r. getImageTranscodedSizeInBytes ?T ?f 0 0 9 = Returned r
            \<and> unat r = pvrtc1_padded_size (unat (7::u32)) (unat (9::u32))"
    by (rule pvrtc1_size_exact [where tb = 6]) (simp_all add: stub_basisu_def round_up4_def)
  then obtain r where r: "getImageTranscodedSizeInBytes ?T ?f 0 0 9 = Returned r" "unat r = 48"
    using p by auto
  from r(2) have "word_of_nat (unat r) = (word_of_nat 48 :: u32)" by simp
  then have "r = 48" by simp
  with r(1) p show ?thesis by simp
qed

text \<open>
  Without the bound the claim fails: for a 32768x32768 level the product
  \<open>32768 * 32768 * 4\<close> wraps to 0 in 32 bits and the function returns 0, not
  536870912.
\<close>

theorem pvrtc1_size_overflow:
  "getImageTranscodedSizeInBytes (stub_basisu True [(32768, 32768, 67108864)] False)
      \<lparr>m_magic = MAGIC, m_file = [1]\<rparr> 0 0 8 = Returned 0
   \<and> pvrtc1_padded_size (unat (32768::u32)) (unat (32768::u32)) = 536870912"
  by (simp add: getImageTranscodedSizeInBytes_def c_assert_def stub_basisu_def
      pvrtc1_padded_size_def round_up4_def)

section \<open>Queries on a closed container\<close>

text \<open>
  C2 (as amended). Let the transcoder's queries reject an empty buffer. After
  \<^verbatim>\<open>close()\<close>, \<^verbatim>\<open>getNumImages\<close>, \<^verbatim>\<open>getNumLevels\<close>, \<^verbatim>\<open>getImageWidth\<close>,
  \<^verbatim>\<open>getImageHeight\<close>, \<^verbatim>\<open>getHasAlpha\<close> and \<^verbatim>\<open>getImageTranscodedSizeInBytes\<close>
  return 0; \<^verbatim>\<open>getFileDesc\<close>, \<^verbatim>\<open>getImageDesc\<close> and \<^verbatim>\<open>getImageLevelDesc\<close> return
  the zeroed descriptor when assertions are compiled out (\<^verbatim>\<open>NDEBUG\<close>) and stop
  at their \<^verbatim>\<open>assert(0)\<close> otherwise; closing again returns the same closed
  container.
\<close>

theorem queries_after_close:
  assumes "rejects_empty T" and "close T f = Returned f'"
  shows "getNumImages T f' = Returned 0
       \<and> getNumLevels T f' image_index = Returned 0
       \<and> getImageWidth T f' image_index level_index = Returned 0
       \<and> getImageHeight T f' image_index level_index = Returned 0
       \<and> getHasAlpha T f' = Returned 0
       \<and> getImageTranscodedSizeInBytes T f' image_index level_index format = Returned 0
       \<and> getFileDesc T f' = (if NDEBUG T then Returned zero_file_desc else AssertFailed)
       \<and> getImageDesc T f' image_index =
            (if NDEBUG T then Returned zero_image_desc else AssertFailed)
       \<and> getImageLevelDesc T f' image_index level_index =
            (if NDEBUG T then Returned zero_image_level_desc else AssertFailed)
       \<and> close T f' = Returned f'"
proof -
  from assms(2) have c: "NDEBUG T \<or> m_magic f = MAGIC" and f': "f' = f\<lparr>m_file := []\<rparr>"
    by (auto simp add: close_def c_assert_def split: if_splits)
  from assms(1) have e: "get_total_images T [] = 0" "get_file_info T [] = None"
    "\<And>i. get_image_info T [] i = None" "\<And>i l. get_image_level_info T [] i l = None"
    "\<And>i l. get_image_level_desc T [] i l = None"
    by (simp_all add: rejects_empty_def)
  have 1: "getNumImages T f' = Returned 0"
    using c by (auto simp add: getNumImages_def c_assert_def f' e)
  have 2: "getNumLevels T f' image_index = Returned 0"
    using c by (auto simp add: getNumLevels_def c_assert_def f' e)
  have 3: "getImageWidth T f' image_index level_index = Returned 0"
    using c by (auto simp add: getImageWidth_def c_assert_def f' e)
  have 4: "getImageHeight T f' image_index level_index = Returned 0"
    using c by (auto simp add: getImageHeight_def c_assert_def f' e)
  have 5: "getHasAlpha T f' = Returned 0"
    using c by (auto simp add: getHasAlpha_def c_assert_def f' e)
  have 6: "getImageTranscodedSizeInBytes T f' image_index level_index format = Returned 0"
    using c by (auto simp add: getImageTranscodedSizeInBytes_def c_assert_def f' e)
  have 7: "getFileDesc T f' = (if NDEBUG T then Returned zero_file_desc else AssertFailed)"
    using c by (auto simp add: getFileDesc_def c_assert_def f' e)
  have 8: "getImageDesc T f' image_index =
            (if NDEBUG T then Returned zero_image_desc else AssertFailed)"
    using c by (auto simp add: getImageDesc_def c_assert_def f' e)
  have 9: "getImageLevelDesc T f' image_index level_index =
            (if NDEBUG T then Returned zero_image_level_desc else AssertFailed)"
    using c by (auto simp add: getImageLevelDesc_def c_assert_def f' e)
  have 10: "close T f' = Returned f'"
    using c by (auto simp add: close_def c_assert_def f')
  from 1 2 3 4 5 6 7 8 9 10 show ?thesis by simp
qed

text \<open>
  The theorem on a two-byte container in a build without assertions: one image
  before \<^verbatim>\<open>close()\<close>, none after, and a zeroed file descriptor.
\<close>

theorem queries_after_close_witness:
  "rejects_empty (stub_basisu True [(4, 4, 1)] True)
   \<and> close (stub_basisu True [(4, 4, 1)] True) \<lparr>m_magic = MAGIC, m_file = [1, 2]\<rparr>
       = Returned \<lparr>m_magic = MAGIC, m_file = []\<rparr>
   \<and> getNumImages (stub_basisu True [(4, 4, 1)] True) \<lparr>m_magic = MAGIC, m_file = [1, 2]\<rparr>
       = Returned 1
   \<and> getNumImages (stub_basisu True [(4, 4, 1)] True) \<lparr>m_magic = MAGIC, m_file = []\<rparr>
       = Returned 0
   \<and> getFileDesc (stub_basisu True [(4, 4, 1)] True) \<lparr>m_magic = MAGIC, m_file = []\<rparr>
       = Returned zero_file_desc"
proof -
  let ?T = "stub_basisu True [(4, 4, 1)] True"
  have r: "rejects_empty ?T" by (rule rejects_empty_stub)
  have c: "close ?T \<lparr>m_magic = MAGIC, m_file = [1, 2]\<rparr> = Returned \<lparr>m_magic = MAGIC, m_file = []\<rparr>"
    by (simp add: close_def c_assert_def)
  have n: "getNumImages ?T \<lparr>m_magic = MAGIC, m_file = [1, 2]\<rparr> = Returned 1"
    by (simp add: getNumImages_def c_assert_def stub_basisu_def)
  have "NDEBUG ?T" by (simp add: stub_basisu_def)
  with queries_after_close [OF r c, of 0 0 0] r c n show ?thesis by simp
qed

text \<open>
  With assertions enabled, \<^verbatim>\<open>getFileDesc\<close> on the closed container does not
  return the zeroed descriptor: \<^verbatim>\<open>get_file_info\<close> fails and \<^verbatim>\<open>assert(0)\<close> stops
  the call.
\<close>

theorem getFileDesc_after_close_asserts:
  "rejects_empty (stub_basisu False [(4, 4, 1)] True)
   \<and> close (stub_basisu False [(4, 4, 1)] True) \<lparr>m_magic = MAGIC, m_file = [1, 2]\<rparr>
       = Returned \<lparr>m_magic = MAGIC, m_file = []\<rparr>
   \<and> getFileDesc (stub_basisu False [(4, 4, 1)] True) \<lparr>m_magic = MAGIC, m_file = []\<rparr>
       = AssertFailed"
proof -
  let ?T = "stub_basisu False [(4, 4, 1)] True"
  have "rejects_empty ?T" by (rule rejects_empty_stub)
  moreover have "close ?T \<lparr>m_magic = MAGIC, m_file = [1, 2]\<rparr>
       = Returned \<lparr>m_magic = MAGIC, m_file = []\<rparr>"
    by (simp add: close_def c_assert_def)
  moreover have "getFileDesc ?T \<lparr>m_magic = MAGIC, m_file = []\<rparr> = AssertFailed"
    by (simp add: c_assert_def getFileDesc_def stub_basisu_def)
  ultimately show ?thesis by (intro conjI)
qed

section \<open>Failing without touching the destination\<close>




section \<open>Out-of-range formats\<close>

text \<open>
  C4. For every format enumerant greater than or equal to
  \<^verbatim>\<open>cTFTotalTextureFormats\<close>, on every constructed container,
  \<^verbatim>\<open>getImageTranscodedSizeInBytes\<close> and \<^verbatim>\<open>transcodeImage\<close> fail the call by
  returning 0; \<^verbatim>\<open>transcodeImage\<close> does so before \<^verbatim>\<open>dst_data\<close> is resized
  (\<open>None\<close>) and leaves the destination as it was, so no zero-length or truncated
  buffer is produced.
\<close>

theorem unsupported_format_rejected:
  assumes "constructed T f" and "cTFTotalTextureFormats T \<le> format"
  shows "getImageTranscodedSizeInBytes T f image_index level_index format = Returned 0
       \<and> transcodeImage T f dst image_index level_index format unused a = Returned (0, dst, None)"
  using assms
  by (auto simp add: getImageTranscodedSizeInBytes_def transcodeImage_def c_assert_def
      constructed_def)

text \<open>The theorem at the enumerant 22 itself, on a valid one-level container.\<close>

theorem unsupported_format_rejected_witness:
  "constructed (stub_basisu False [(4, 4, 1)] False) \<lparr>m_magic = MAGIC, m_file = [1]\<rparr>
   \<and> cTFTotalTextureFormats (stub_basisu False [(4, 4, 1)] False) \<le> 22
   \<and> getImageTranscodedSizeInBytes (stub_basisu False [(4, 4, 1)] False)
        \<lparr>m_magic = MAGIC, m_file = [1]\<rparr> 0 0 22 = Returned 0
   \<and> transcodeImage (stub_basisu False [(4, 4, 1)] False) \<lparr>m_magic = MAGIC, m_file = [1]\<rparr>
        [9, 9] 0 0 22 0 0 = Returned (0, [9, 9], None)"
proof -
  let ?T = "stub_basisu False [(4, 4, 1)] False"
  let ?f = "\<lparr>m_magic = MAGIC, m_file = [1]\<rparr>"
  have c: "constructed ?T ?f" by (simp add: constructed_def)
  have t: "cTFTotalTextureFormats ?T \<le> 22" by (simp add: stub_basisu_def)
  from unsupported_format_rejected [OF c t, of 0 0 "[9, 9]" 0 0] c t show ?thesis by simp
qed

section \<open>Raster and block sizes\<close>

text \<open>
  C5 (as amended). On a valid container, for a format below
  \<^verbatim>\<open>cTFTotalTextureFormats\<close> and a level of original width \<open>w\<close>, height \<open>h\<close> and
  \<open>tb\<close> blocks, \<^verbatim>\<open>getImageTranscodedSizeInBytes\<close> returns
  \<open>w * h * bytesPerPixel(format)\<close> reduced modulo \<open>2^32\<close> for an uncompressed
  format, and \<open>tb * bytesPerBlock(format)\<close> reduced modulo \<open>2^32\<close> for a
  block-compressed format other than the PVRTC1 ones: exactly the product, with
  no padding, whenever the product is below \<open>2^32\<close>.
\<close>

theorem raster_and_block_sizes:
  assumes "m_magic f = MAGIC"
    and "format < cTFTotalTextureFormats T"
    and "get_image_level_desc T (m_file f) image_index level_index = Some (w, h, tb)"
  shows "(basis_transcoder_format_is_uncompressed T format \<longrightarrow>
            (\<exists>r. getImageTranscodedSizeInBytes T f image_index level_index format = Returned r
               \<and> unat r = (unat w * unat h * unat (basis_get_uncompressed_bytes_per_pixel T format))
                            mod 2 ^ 32
               \<and> (unat w * unat h * unat (basis_get_uncompressed_bytes_per_pixel T format) < 2 ^ 32
                    \<longrightarrow> unat r
                        = unat w * unat h * unat (basis_get_uncompressed_bytes_per_pixel T format))))
       \<and> (\<not> basis_transcoder_format_is_uncompressed T format
            \<and> format \<noteq> cTFPVRTC1_4_RGB T \<and> format \<noteq> cTFPVRTC1_4_RGBA T \<longrightarrow>
            (\<exists>r. getImageTranscodedSizeInBytes T f image_index level_index format = Returned r
               \<and> unat r = (unat tb * unat (basis_get_bytes_per_block_or_pixel T format))
                            mod 2 ^ 32
               \<and> (unat tb * unat (basis_get_bytes_per_block_or_pixel T format) < 2 ^ 32
                    \<longrightarrow> unat r = unat tb * unat (basis_get_bytes_per_block_or_pixel T format))))"
proof -
  note s = size_value [OF assms]
  have n: "unat w * unat (basis_get_uncompressed_bytes_per_pixel T format) * unat h
      = unat w * unat h * unat (basis_get_uncompressed_bytes_per_pixel T format)"
    by (simp add: ac_simps)
  have "unat (w * basis_get_uncompressed_bytes_per_pixel T format * h)
      = (unat w * unat h * unat (basis_get_uncompressed_bytes_per_pixel T format)) mod 2 ^ 32"
    by (simp only: unat_mult3 n)
  with s unat_mult2 [of tb "basis_get_bytes_per_block_or_pixel T format"]
  show ?thesis by simp
qed

text \<open>
  The theorem on an 8x12 level of 6 blocks: 384 bytes as RGBA32 (format 13, 4
  bytes per pixel), 48 bytes as ETC1 (format 0, 8 bytes per block).
\<close>

theorem raster_and_block_sizes_witness:
  "basis_transcoder_format_is_uncompressed (stub_basisu True [(8, 12, 6)] False) 13
   \<and> unat (8 :: u32) * unat (12 :: u32)
        * unat (basis_get_uncompressed_bytes_per_pixel (stub_basisu True [(8, 12, 6)] False) 13)
      < 2 ^ 32
   \<and> getImageTranscodedSizeInBytes (stub_basisu True [(8, 12, 6)] False)
        \<lparr>m_magic = MAGIC, m_file = [1]\<rparr> 0 0 13 = Returned 384
   \<and> \<not> basis_transcoder_format_is_uncompressed (stub_basisu True [(8, 12, 6)] False) 0
   \<and> unat (6 :: u32) * unat (basis_get_bytes_per_block_or_pixel (stub_basisu True [(8, 12, 6)] False) 0)
      < 2 ^ 32
   \<and> getImageTranscodedSizeInBytes (stub_basisu True [(8, 12, 6)] False)
        \<lparr>m_magic = MAGIC, m_file = [1]\<rparr> 0 0 0 = Returned 48"
proof -
  let ?T = "stub_basisu True [(8, 12, 6)] False"
  let ?f = "\<lparr>m_magic = MAGIC, m_file = [1]\<rparr>"
  have u: "basis_transcoder_format_is_uncompressed ?T 13"
    and p: "basis_get_uncompressed_bytes_per_pixel ?T 13 = 4"
    and c: "\<not> basis_transcoder_format_is_uncompressed ?T 0"
    and b: "basis_get_bytes_per_block_or_pixel ?T 0 = 8"
    and k: "cTFPVRTC1_4_RGB ?T = 8" "cTFPVRTC1_4_RGBA ?T = 9"
    by (simp_all add: stub_basisu_def)
  have "\<exists>r. getImageTranscodedSizeInBytes ?T ?f 0 0 13 = Returned r \<and> unat r = 384"
    using raster_and_block_sizes [where T = ?T and f = ?f and format = 13 and image_index = 0
        and level_index = 0 and w = 8 and h = 12 and tb = 6, THEN conjunct1] u p
    by (simp add: stub_basisu_def)
  then obtain r where r: "getImageTranscodedSizeInBytes ?T ?f 0 0 13 = Returned r" "unat r = 384"
    by blast
  from r(2) have "word_of_nat (unat r) = (word_of_nat 384 :: u32)" by simp
  then have r384: "r = 384" by simp
  have "\<exists>r. getImageTranscodedSizeInBytes ?T ?f 0 0 0 = Returned r \<and> unat r = 48"
    using raster_and_block_sizes [where T = ?T and f = ?f and format = 0 and image_index = 0
        and level_index = 0 and w = 8 and h = 12 and tb = 6, THEN conjunct2] c b k
    by (simp add: stub_basisu_def)
  then obtain q where q: "getImageTranscodedSizeInBytes ?T ?f 0 0 0 = Returned q" "unat q = 48"
    by blast
  from q(2) have "word_of_nat (unat q) = (word_of_nat 48 :: u32)" by simp
  then have q48: "q = 48" by simp
  from r(1) r384 q(1) q48 u p c b show ?thesis by simp
qed

text \<open>
  The claim as stated fails where the product does not fit 32 bits: a
  32768x32768 level as RGBA32 has \<open>w * h * 4 = 4294967296\<close> bytes, and the
  function returns 0.
\<close>

theorem raster_size_overflow:
  "getImageTranscodedSizeInBytes (stub_basisu True [(32768, 32768, 67108864)] False)
      \<lparr>m_magic = MAGIC, m_file = [1]\<rparr> 0 0 13 = Returned 0
   \<and> basis_transcoder_format_is_uncompressed (stub_basisu True [(32768, 32768, 67108864)] False) 13
   \<and> unat (32768 :: u32) * unat (32768 :: u32)
        * unat (basis_get_uncompressed_bytes_per_pixel
                  (stub_basisu True [(32768, 32768, 67108864)] False) 13) = 4294967296"
  by (simp add: getImageTranscodedSizeInBytes_def c_assert_def stub_basisu_def)

section \<open>Empty palette and table buffers\<close>

text \<open>
  C6 (as amended). \<^verbatim>\<open>decode_palettes\<close> with an empty endpoint buffer or an
  empty selector buffer, and \<^verbatim>\<open>decode_tables\<close> with an empty table buffer, always
  fail: when assertions are compiled out (\<^verbatim>\<open>NDEBUG\<close>) they return false with the
  session exactly as it was, and when assertions are enabled they stop at the
  \<^verbatim>\<open>assert(0)\<close> that precedes the return. The base decoder is not called, so the
  loaded palettes and tables are never mutated.
\<close>

theorem empty_buffers_rejected:
  "(endpoint_data = [] \<or> selector_data = [] \<longrightarrow>
      decode_palettes T s num_endpoints endpoint_data num_selectors selector_data
        = (if NDEBUG T then Returned (False, s) else AssertFailed))
   \<and> decode_tables T s [] = (if NDEBUG T then Returned (False, s) else AssertFailed)"
proof -
  have p: "endpoint_data = [] \<or> selector_data = [] \<longrightarrow>
      decode_palettes T s num_endpoints endpoint_data num_selectors selector_data
        = (if NDEBUG T then Returned (False, s) else AssertFailed)"
    by (auto simp add: decode_palettes_def c_assert_def copy_from_jsbuffer_def)
  have t: "decode_tables T s [] = (if NDEBUG T then Returned (False, s) else AssertFailed)"
    by (simp add: decode_tables_def c_assert_def copy_from_jsbuffer_def)
  from p t show ?thesis by (intro conjI)
qed

text \<open>
  The theorem on a session whose base decoder has been called 5 times: an empty
  selector buffer and an empty table buffer leave the count at 5, where
  non-empty buffers make it 6.
\<close>

theorem empty_buffers_rejected_witness:
  "decode_palettes (stub_basisu True [(4, 4, 1)] False) \<lparr>base = 5, m_state = 0\<rparr> 1 [7] 1 []
     = Returned (False, \<lparr>base = 5, m_state = 0\<rparr>)
   \<and> decode_tables (stub_basisu True [(4, 4, 1)] False) \<lparr>base = 5, m_state = 0\<rparr> []
     = Returned (False, \<lparr>base = 5, m_state = 0\<rparr>)
   \<and> decode_palettes (stub_basisu True [(4, 4, 1)] False) \<lparr>base = 5, m_state = 0\<rparr> 1 [7] 1 [7]
     = Returned (True, \<lparr>base = 6, m_state = 0\<rparr>)"
proof -
  let ?T = "stub_basisu True [(4, 4, 1)] False"
  let ?s = "\<lparr>base = 5 :: nat, m_state = 0 :: nat\<rparr>"
  have n: "NDEBUG ?T" by (simp add: stub_basisu_def)
  have p: "decode_palettes ?T ?s 1 [7] 1 [7] = Returned (True, \<lparr>base = 6, m_state = 0\<rparr>)"
    by (simp add: decode_palettes_def copy_from_jsbuffer_def stub_basisu_def)
  from empty_buffers_rejected [of "[7]" "[]" ?T ?s 1 1] n p show ?thesis by simp
qed

text \<open>
  With assertions enabled the calls do not return false: they stop at
  \<^verbatim>\<open>assert(0)\<close>.
\<close>

theorem empty_buffers_assert:
  "decode_palettes (stub_basisu False [(4, 4, 1)] False) \<lparr>base = 5, m_state = 0\<rparr> 1 [7] 1 []
     = AssertFailed
   \<and> decode_tables (stub_basisu False [(4, 4, 1)] False) \<lparr>base = 5, m_state = 0\<rparr> []
     = AssertFailed"
  by (simp add: decode_palettes_def decode_tables_def c_assert_def copy_from_jsbuffer_def
      stub_basisu_def)

section \<open>Determinism and monotonicity of the size\<close>

text \<open>
  C7 (as amended). For a fixed format, calls of
  \<^verbatim>\<open>getImageTranscodedSizeInBytes\<close> on levels of equal geometry return equal
  results. From a level of width \<open>w1\<close>, height \<open>h1\<close> and \<open>tb1\<close> blocks to one of
  width \<open>w2\<close>, height \<open>h2\<close> and \<open>tb2\<close> blocks the returned size does not
  decrease
  \<^item> for an uncompressed format, when \<open>w1 \<le> w2\<close>, \<open>h1 \<le> h2\<close> and
    \<open>w2 * bytesPerPixel * h2 < 2^32\<close>;
  \<^item> for a PVRTC1 format, when \<open>w1 \<le> w2\<close>, \<open>h1 \<le> h2\<close> and the value
    \<open>max(8,w2') * max(8,h2') * 4 + 7\<close> that the formula divides by 8 is below
    \<open>2^32\<close>;
  \<^item> for any other block format, whose size is \<open>tb * bytesPerBlock\<close> whatever
    the width and height, when \<open>tb1 \<le> tb2\<close> and \<open>tb2 * bytesPerBlock < 2^32\<close>.
\<close>

theorem size_deterministic_and_monotone:
  assumes "m_magic f1 = MAGIC" and "m_magic f2 = MAGIC"
    and "format < cTFTotalTextureFormats T"
    and "get_image_level_desc T (m_file f1) i1 l1 = Some (w1, h1, tb1)"
    and "get_image_level_desc T (m_file f2) i2 l2 = Some (w2, h2, tb2)"
  shows "(w1 = w2 \<and> h1 = h2 \<and> tb1 = tb2 \<longrightarrow>
            getImageTranscodedSizeInBytes T f1 i1 l1 format
              = getImageTranscodedSizeInBytes T f2 i2 l2 format)
       \<and> (basis_transcoder_format_is_uncompressed T format \<and> w1 \<le> w2 \<and> h1 \<le> h2
            \<and> unat w2 * unat (basis_get_uncompressed_bytes_per_pixel T format) * unat h2 < 2 ^ 32
          \<longrightarrow>
            (\<exists>s1 s2. getImageTranscodedSizeInBytes T f1 i1 l1 format = Returned s1
                   \<and> getImageTranscodedSizeInBytes T f2 i2 l2 format = Returned s2
                   \<and> s1 \<le> s2))
       \<and> (\<not> basis_transcoder_format_is_uncompressed T format
            \<and> (format = cTFPVRTC1_4_RGB T \<or> format = cTFPVRTC1_4_RGBA T)
            \<and> w1 \<le> w2 \<and> h1 \<le> h2
            \<and> max 8 (round_up4 (unat w2)) * max 8 (round_up4 (unat h2)) * 4 + 7 < 2 ^ 32
          \<longrightarrow>
            (\<exists>s1 s2. getImageTranscodedSizeInBytes T f1 i1 l1 format = Returned s1
                   \<and> getImageTranscodedSizeInBytes T f2 i2 l2 format = Returned s2
                   \<and> s1 \<le> s2))
       \<and> (\<not> basis_transcoder_format_is_uncompressed T format
            \<and> format \<noteq> cTFPVRTC1_4_RGB T \<and> format \<noteq> cTFPVRTC1_4_RGBA T
            \<and> tb1 \<le> tb2
            \<and> unat tb2 * unat (basis_get_bytes_per_block_or_pixel T format) < 2 ^ 32
          \<longrightarrow>
            (\<exists>s1 s2. getImageTranscodedSizeInBytes T f1 i1 l1 format = Returned s1
                   \<and> getImageTranscodedSizeInBytes T f2 i2 l2 format = Returned s2
                   \<and> s1 \<le> s2))"
proof -
  note v1 = size_value [OF assms(1) assms(3) assms(4)]
  note v2 = size_value [OF assms(2) assms(3) assms(5)]
  have d: "w1 = w2 \<and> h1 = h2 \<and> tb1 = tb2 \<longrightarrow>
            getImageTranscodedSizeInBytes T f1 i1 l1 format
              = getImageTranscodedSizeInBytes T f2 i2 l2 format"
    by (simp add: v1 v2)
  have r: "basis_transcoder_format_is_uncompressed T format \<and> w1 \<le> w2 \<and> h1 \<le> h2
            \<and> unat w2 * unat (basis_get_uncompressed_bytes_per_pixel T format) * unat h2 < 2 ^ 32
          \<longrightarrow>
            (\<exists>s1 s2. getImageTranscodedSizeInBytes T f1 i1 l1 format = Returned s1
                   \<and> getImageTranscodedSizeInBytes T f2 i2 l2 format = Returned s2
                   \<and> s1 \<le> s2)"
    by (simp add: v1 v2 raster_mono)
  have p: "\<not> basis_transcoder_format_is_uncompressed T format
            \<and> (format = cTFPVRTC1_4_RGB T \<or> format = cTFPVRTC1_4_RGBA T)
            \<and> w1 \<le> w2 \<and> h1 \<le> h2
            \<and> max 8 (round_up4 (unat w2)) * max 8 (round_up4 (unat h2)) * 4 + 7 < 2 ^ 32
          \<longrightarrow>
            (\<exists>s1 s2. getImageTranscodedSizeInBytes T f1 i1 l1 format = Returned s1
                   \<and> getImageTranscodedSizeInBytes T f2 i2 l2 format = Returned s2
                   \<and> s1 \<le> s2)"
  proof
    assume a: "\<not> basis_transcoder_format_is_uncompressed T format
            \<and> (format = cTFPVRTC1_4_RGB T \<or> format = cTFPVRTC1_4_RGBA T)
            \<and> w1 \<le> w2 \<and> h1 \<le> h2
            \<and> max 8 (round_up4 (unat w2)) * max 8 (round_up4 (unat h2)) * 4 + 7 < 2 ^ 32"
    then have "(max 8 ((w1 + 3) AND NOT 3) * max 8 ((h1 + 3) AND NOT 3) * 4 + 7) div 8
            \<le> (max 8 ((w2 + 3) AND NOT 3) * max 8 ((h2 + 3) AND NOT 3) * 4 + 7) div 8"
      by (intro pvrtc1_mono) simp_all
    moreover from a have "\<not> basis_transcoder_format_is_uncompressed T format"
      and "format = cTFPVRTC1_4_RGB T \<or> format = cTFPVRTC1_4_RGBA T"
      by simp_all
    ultimately show "\<exists>s1 s2. getImageTranscodedSizeInBytes T f1 i1 l1 format = Returned s1
                   \<and> getImageTranscodedSizeInBytes T f2 i2 l2 format = Returned s2
                   \<and> s1 \<le> s2"
      by (simp only: v1 v2 if_True if_False) blast
  qed
  have b: "\<not> basis_transcoder_format_is_uncompressed T format
            \<and> format \<noteq> cTFPVRTC1_4_RGB T \<and> format \<noteq> cTFPVRTC1_4_RGBA T
            \<and> tb1 \<le> tb2
            \<and> unat tb2 * unat (basis_get_bytes_per_block_or_pixel T format) < 2 ^ 32
          \<longrightarrow>
            (\<exists>s1 s2. getImageTranscodedSizeInBytes T f1 i1 l1 format = Returned s1
                   \<and> getImageTranscodedSizeInBytes T f2 i2 l2 format = Returned s2
                   \<and> s1 \<le> s2)"
    by (simp add: v1 v2 blocks_mono)
  show ?thesis by (intro conjI d r p b)
qed

text \<open>
  The theorem on the two mip levels 8x12 (6 blocks) and 4x6 (2 blocks) of one
  image: 96 and 384 bytes as RGBA32 (format 13), 32 and 48 bytes as PVRTC1
  (format 8), 16 and 48 bytes as ETC1 (format 0).
\<close>

theorem size_deterministic_and_monotone_witness:
  "getImageTranscodedSizeInBytes (stub_basisu True [(8, 12, 6), (4, 6, 2)] False)
      \<lparr>m_magic = MAGIC, m_file = [1]\<rparr> 0 1 13 = Returned 96
   \<and> getImageTranscodedSizeInBytes (stub_basisu True [(8, 12, 6), (4, 6, 2)] False)
      \<lparr>m_magic = MAGIC, m_file = [1]\<rparr> 0 0 13 = Returned 384
   \<and> getImageTranscodedSizeInBytes (stub_basisu True [(8, 12, 6), (4, 6, 2)] False)
      \<lparr>m_magic = MAGIC, m_file = [1]\<rparr> 0 1 8 = Returned 32
   \<and> getImageTranscodedSizeInBytes (stub_basisu True [(8, 12, 6), (4, 6, 2)] False)
      \<lparr>m_magic = MAGIC, m_file = [1]\<rparr> 0 0 8 = Returned 48
   \<and> getImageTranscodedSizeInBytes (stub_basisu True [(8, 12, 6), (4, 6, 2)] False)
      \<lparr>m_magic = MAGIC, m_file = [1]\<rparr> 0 1 0 = Returned 16
   \<and> getImageTranscodedSizeInBytes (stub_basisu True [(8, 12, 6), (4, 6, 2)] False)
      \<lparr>m_magic = MAGIC, m_file = [1]\<rparr> 0 0 0 = Returned 48
   \<and> (4 :: u32) \<le> 8 \<and> (6 :: u32) \<le> 12 \<and> (2 :: u32) \<le> 6
   \<and> unat (8 :: u32)
        * unat (basis_get_uncompressed_bytes_per_pixel
                  (stub_basisu True [(8, 12, 6), (4, 6, 2)] False) 13)
        * unat (12 :: u32) < 2 ^ 32
   \<and> max 8 (round_up4 (unat (8 :: u32))) * max 8 (round_up4 (unat (12 :: u32))) * 4 + 7
        < (2 :: nat) ^ 32
   \<and> unat (6 :: u32)
        * unat (basis_get_bytes_per_block_or_pixel
                  (stub_basisu True [(8, 12, 6), (4, 6, 2)] False) 0) < 2 ^ 32
   \<and> (96 :: u32) \<le> 384 \<and> (32 :: u32) \<le> 48 \<and> (16 :: u32) \<le> 48"
proof -
  let ?T = "stub_basisu True [(8, 12, 6), (4, 6, 2)] False"
  let ?f = "\<lparr>m_magic = MAGIC, m_file = [1]\<rparr>"
  have s: "getImageTranscodedSizeInBytes ?T ?f 0 1 13 = Returned 96"
    "getImageTranscodedSizeInBytes ?T ?f 0 0 13 = Returned 384"
    "getImageTranscodedSizeInBytes ?T ?f 0 1 8 = Returned 32"
    "getImageTranscodedSizeInBytes ?T ?f 0 0 8 = Returned 48"
    "getImageTranscodedSizeInBytes ?T ?f 0 1 0 = Returned 16"
    "getImageTranscodedSizeInBytes ?T ?f 0 0 0 = Returned 48"
    by (simp_all add: getImageTranscodedSizeInBytes_def c_assert_def stub_basisu_def)
  have h: "unat (8 :: u32) * unat (basis_get_uncompressed_bytes_per_pixel ?T 13)
             * unat (12 :: u32) < 2 ^ 32"
    "max 8 (round_up4 (unat (8 :: u32))) * max 8 (round_up4 (unat (12 :: u32))) * 4 + 7
        < (2 :: nat) ^ 32"
    "unat (6 :: u32) * unat (basis_get_bytes_per_block_or_pixel ?T 0) < 2 ^ 32"
    by (simp_all add: stub_basisu_def round_up4_def)
  have k: "basis_transcoder_format_is_uncompressed ?T 13"
    "\<not> basis_transcoder_format_is_uncompressed ?T 8" "cTFPVRTC1_4_RGB ?T = 8"
    "\<not> basis_transcoder_format_is_uncompressed ?T 0" "cTFPVRTC1_4_RGBA ?T = 9"
    by (simp_all add: stub_basisu_def)
  have g: "m_magic ?f = MAGIC" "get_image_level_desc ?T (m_file ?f) 0 1 = Some (4, 6, 2)"
    "get_image_level_desc ?T (m_file ?f) 0 0 = Some (8, 12, 6)"
    "(13 :: u32) < cTFTotalTextureFormats ?T" "(8 :: u32) < cTFTotalTextureFormats ?T"
    "(0 :: u32) < cTFTotalTextureFormats ?T"
    by (simp_all add: stub_basisu_def)
  have "\<exists>s1 s2. getImageTranscodedSizeInBytes ?T ?f 0 1 13 = Returned s1
             \<and> getImageTranscodedSizeInBytes ?T ?f 0 0 13 = Returned s2 \<and> s1 \<le> s2"
    using size_deterministic_and_monotone [OF g(1) g(1) g(4) g(2) g(3),
        THEN conjunct2, THEN conjunct1] k h
    by simp
  then have a: "(96 :: u32) \<le> 384" by (simp add: s)
  have "\<exists>s1 s2. getImageTranscodedSizeInBytes ?T ?f 0 1 8 = Returned s1
             \<and> getImageTranscodedSizeInBytes ?T ?f 0 0 8 = Returned s2 \<and> s1 \<le> s2"
    using size_deterministic_and_monotone [OF g(1) g(1) g(5) g(2) g(3),
        THEN conjunct2, THEN conjunct2, THEN conjunct1] k h
    by simp
  then have b: "(32 :: u32) \<le> 48" by (simp add: s)
  have "\<exists>s1 s2. getImageTranscodedSizeInBytes ?T ?f 0 1 0 = Returned s1
             \<and> getImageTranscodedSizeInBytes ?T ?f 0 0 0 = Returned s2 \<and> s1 \<le> s2"
    using size_deterministic_and_monotone [OF g(1) g(1) g(6) g(2) g(3),
        THEN conjunct2, THEN conjunct2, THEN conjunct2] k h
    by simp
  then have c: "(16 :: u32) \<le> 48" by (simp add: s)
  have o: "(4 :: u32) \<le> 8" "(6 :: u32) \<le> 12" "(2 :: u32) \<le> 6" by simp_all
  show ?thesis by (intro conjI s o h a b c)
qed

text \<open>
  Each bound is needed, and the claim as stated fails without it. As RGBA32
  the 1x1 level takes 4 bytes and the 32768x32768 level, whose product wraps
  around, 0. As PVRTC1 the 1x1 level takes 32 bytes and the 32768x32768 level
  0, although its padded size 536870912 fits 32 bits: the value divided by 8
  does not. As ETC1 a 4x4 level recorded with 100 blocks takes 800 bytes and an
  8x8 level recorded with 1 block takes 8: the width and height do not enter;
  and a level of 1 block takes 8 bytes where one of 536870912 blocks, whose
  product wraps around, takes 0.
\<close>

theorem size_not_monotone:
  "getImageTranscodedSizeInBytes (stub_basisu True [(32768, 32768, 67108864), (1, 1, 1)] False)
      \<lparr>m_magic = MAGIC, m_file = [1]\<rparr> 0 1 13 = Returned 4
   \<and> getImageTranscodedSizeInBytes (stub_basisu True [(32768, 32768, 67108864), (1, 1, 1)] False)
      \<lparr>m_magic = MAGIC, m_file = [1]\<rparr> 0 0 13 = Returned 0
   \<and> getImageTranscodedSizeInBytes (stub_basisu True [(32768, 32768, 67108864), (1, 1, 1)] False)
      \<lparr>m_magic = MAGIC, m_file = [1]\<rparr> 0 1 8 = Returned 32
   \<and> getImageTranscodedSizeInBytes (stub_basisu True [(32768, 32768, 67108864), (1, 1, 1)] False)
      \<lparr>m_magic = MAGIC, m_file = [1]\<rparr> 0 0 8 = Returned 0
   \<and> pvrtc1_padded_size (unat (32768 :: u32)) (unat (32768 :: u32)) = 536870912
   \<and> getImageTranscodedSizeInBytes (stub_basisu True [(8, 8, 1), (4, 4, 100)] False)
      \<lparr>m_magic = MAGIC, m_file = [1]\<rparr> 0 1 0 = Returned 800
   \<and> getImageTranscodedSizeInBytes (stub_basisu True [(8, 8, 1), (4, 4, 100)] False)
      \<lparr>m_magic = MAGIC, m_file = [1]\<rparr> 0 0 0 = Returned 8
   \<and> getImageTranscodedSizeInBytes (stub_basisu True [(8, 8, 536870912), (4, 4, 1)] False)
      \<lparr>m_magic = MAGIC, m_file = [1]\<rparr> 0 1 0 = Returned 8
   \<and> getImageTranscodedSizeInBytes (stub_basisu True [(8, 8, 536870912), (4, 4, 1)] False)
      \<lparr>m_magic = MAGIC, m_file = [1]\<rparr> 0 0 0 = Returned 0
   \<and> (1 :: u32) \<le> 32768 \<and> (4 :: u32) \<le> 8 \<and> (1 :: u32) \<le> 536870912
   \<and> (0 :: u32) < 4 \<and> (0 :: u32) < 32 \<and> (8 :: u32) < 800 \<and> (0 :: u32) < 8"
  by (simp add: getImageTranscodedSizeInBytes_def c_assert_def stub_basisu_def
      pvrtc1_padded_size_def round_up4_def)

section \<open>Initialisation\<close>

text \<open>
  C8. \<^verbatim>\<open>basis_init\<close> is idempotent: a second call, and any number of later
  calls, leave the global state (the codebook pointer and the transcoder's
  tables) exactly as the first call left it.
\<close>

theorem basis_init_idempotent:
  "basis_init ti cb (basis_init ti cb g) = basis_init ti cb g
   \<and> ((basis_init ti cb ^^ Suc n) g = basis_init ti cb g)"
proof -
  have i: "\<And>x. basis_init ti cb (basis_init ti cb x) = basis_init ti cb x"
    by (simp add: basis_init_def)
  have "(basis_init ti cb ^^ Suc n) g = basis_init ti cb g"
    by (induction n) (simp_all add: i)
  with i show ?thesis by simp
qed

text \<open>
  The theorem from the uninitialised state, with an initialiser that counts its
  runs: three calls run it once.
\<close>

theorem basis_init_idempotent_witness:
  "(basis_init Suc () ^^ Suc 2) \<lparr>g_pGlobal_codebook = None, transcoder_globals = 0\<rparr>
     = \<lparr>g_pGlobal_codebook = Some (), transcoder_globals = 1\<rparr>"
  using basis_init_idempotent [of Suc "()" "\<lparr>g_pGlobal_codebook = None, transcoder_globals = 0\<rparr>" 2]
  by (simp add: basis_init_def)

section \<open>The assertion on the padded PVRTC1 size\<close>

text \<open>
  C9. In \<^verbatim>\<open>transcodeImage\<close> the assertion
  \<^verbatim>\<open>required_size >= total_blocks * bytes_per_block\<close> of the PVRTC1 branch does
  fail: for a 32768x32768 level of 8192x8192 blocks of 8 bytes the padded size
  wraps around to 0, below the 536870912 bytes the blocks take, and a build with
  assertions stops there. (\<open>pvrtc1_assertion_holds\<close> above gives the assertion for
  every level whose padded size, computed without wrap-around, is below \<open>2^32\<close>,
  whose block count is at most \<open>ceil(w/4) * ceil(h/4)\<close> and whose blocks take at
  most 8 bytes.)
\<close>

theorem transcodeImage_pvrtc1_assertion_fails:
  "transcodeImage (stub_basisu False [(32768, 32768, 67108864)] False)
      \<lparr>m_magic = MAGIC, m_file = [1]\<rparr> [] 0 0 8 0 0 = AssertFailed"
  by (simp add: transcodeImage_def c_assert_def stub_basisu_def)

section \<open>The alpha flag\<close>

text \<open>
  C10. On a valid container \<^verbatim>\<open>getHasAlpha\<close> returns the alpha flag of image 0,
  mip level 0, and 0 when the container has no such level; two containers that
  agree on that level's information give the same answer, whatever their other
  images and levels hold.
\<close>

theorem getHasAlpha_first_level:
  assumes "m_magic f = MAGIC"
  shows "(\<forall>li. get_image_level_info T (m_file f) 0 0 = Some li \<longrightarrow>
            getHasAlpha T f = Returned (of_bool (basisu_image_level_info.m_alpha_flag li)))
       \<and> (get_image_level_info T (m_file f) 0 0 = None \<longrightarrow> getHasAlpha T f = Returned 0)
       \<and> (\<forall>T' f'. m_magic f' = MAGIC
            \<and> get_image_level_info T' (m_file f') 0 0 = get_image_level_info T (m_file f) 0 0
            \<longrightarrow> getHasAlpha T' f' = getHasAlpha T f)"
  using assms by (auto simp add: getHasAlpha_def c_assert_def)

text \<open>
  The theorem on a container with alpha in its first level, and on an empty one.
\<close>

theorem getHasAlpha_first_level_witness:
  "m_magic \<lparr>m_magic = MAGIC, m_file = [1]\<rparr> = MAGIC
   \<and> getHasAlpha (stub_basisu False [(4, 4, 1)] True) \<lparr>m_magic = MAGIC, m_file = [1]\<rparr>
       = Returned 1
   \<and> getHasAlpha (stub_basisu False [(4, 4, 1)] True) \<lparr>m_magic = MAGIC, m_file = []\<rparr>
       = Returned 0"
proof -
  let ?T = "stub_basisu False [(4, 4, 1)] True"
  have i: "get_image_level_info ?T [1] 0 0 =
      Some \<lparr>basisu_image_level_info.m_alpha_flag = True,
            basisu_image_level_info.m_rgb_file_ofs = 0,
            basisu_image_level_info.m_rgb_file_len = 1,
            basisu_image_level_info.m_alpha_file_ofs = 0,
            basisu_image_level_info.m_alpha_file_len = 0\<rparr>"
    by (simp add: stub_basisu_def)
  have e: "get_image_level_info ?T [] 0 0 = None"
    by (simp add: stub_basisu_def)
  have a: "getHasAlpha ?T \<lparr>m_magic = MAGIC, m_file = [1]\<rparr> = Returned 1"
    using getHasAlpha_first_level [of "\<lparr>m_magic = MAGIC, m_file = [1]\<rparr>" ?T, THEN conjunct1] i
    by simp
  have b: "getHasAlpha ?T \<lparr>m_magic = MAGIC, m_file = []\<rparr> = Returned 0"
    using getHasAlpha_first_level [of "\<lparr>m_magic = MAGIC, m_file = []\<rparr>" ?T,
        THEN conjunct2, THEN conjunct1] e
    by simp
  from a b show ?thesis by simp
qed

end
